theory Spec2Isabelle
  imports Complex_Main "HOL-Library.Word"
begin

section \<open>Common Go values\<close>

text \<open>
  Go's \<open>int\<close> is modelled at its 64-bit width: addition and subtraction wrap, and the
  comparisons of the source are signed, read through \<open>sint\<close>. A \<open>string\<close> is modelled
  by the sequence of its code points (what \<open>[]rune(s)\<close> yields), a code point by a
  natural number. \<open>error\<close> values are messages, \<open>nil\<close> is \<open>None\<close>.
\<close>

type_synonym goint = "64 word"
type_synonym rune = nat
type_synonym gostring = "rune list"
type_synonym error = string

text \<open>\<open>colorful.Color\<close>: three components that the code stores and hands on, never computes with.\<close>

datatype Color = Color real real real

section \<open>Events (package gui)\<close>

datatype EventType =
    EventTypeClick
  | EventTypeKeyPress
  | EventTypeTextInput
  | EventTypeFocus
  | EventTypeBlur
  | EventTypeMouseMove
  | EventTypeResize

text \<open>\<open>MouseButton\<close>, \<open>Key\<close> and \<open>KeyModifiers\<close> are Go integer types with named constants.\<close>

type_synonym MouseButton = int
type_synonym Key = int
type_synonym KeyModifiers = int

definition KeyEnter :: Key where "KeyEnter = 38"
definition KeyBackspace :: Key where "KeyBackspace = 40"
definition KeyDelete :: Key where "KeyDelete = 41"
definition KeyArrowLeft :: Key where "KeyArrowLeft = 45"
definition KeyArrowRight :: Key where "KeyArrowRight = 46"

text \<open>
  The event variants with their payloads. The creation timestamp of \<open>BaseEvent\<close> is
  read by none of the modelled code and is left out; the event type is the one the
  constructor of the variant sets.
\<close>

datatype Event =
    ClickEvent goint goint MouseButton
  | KeyPressEvent Key KeyModifiers
  | TextInputEvent gostring
  | FocusEvent
  | BlurEvent
  | MouseMoveEvent goint goint
  | ResizeEvent goint goint

fun Type :: "Event \<Rightarrow> EventType" where
  "Type (ClickEvent px py b) = EventTypeClick"
| "Type (KeyPressEvent k m) = EventTypeKeyPress"
| "Type (TextInputEvent t) = EventTypeTextInput"
| "Type FocusEvent = EventTypeFocus"
| "Type BlurEvent = EventTypeBlur"
| "Type (MouseMoveEvent px py) = EventTypeMouseMove"
| "Type (ResizeEvent w h) = EventTypeResize"

section \<open>Canvas, GUIElement and Element (gui.go)\<close>

text \<open>
  Everything outside the value at hand (the other widgets, the drawing surface, what the
  callbacks of the host application touch) is one store of type \<open>'s\<close>. A method of an
  interface value is a function on that store: an event handler returns whether it
  consumed the event, a drawing operation returns its error.
\<close>

type_synonym 's EventHandler = "Event \<Rightarrow> 's \<Rightarrow> bool \<times> 's"

text \<open>
  The \<open>Canvas\<close> interface, by the two operations \<open>Window.Update\<close> calls itself. The
  drawing operations are called by the \<open>Render\<close> methods of the widgets only, which
  stand here as the \<open>Render\<close> of a \<open>GUIElement\<close>.
\<close>

record 's Canvas =
  Clear :: "Color \<Rightarrow> 's \<Rightarrow> error option \<times> 's"
  Present :: "'s \<Rightarrow> error option \<times> 's"

text \<open>
  A \<open>GUIElement\<close> interface value, by the two methods \<open>Element\<close> calls on its children.
\<close>

record 's GUIElement =
  g_Render :: "'s Canvas \<Rightarrow> 's \<Rightarrow> error option \<times> 's"
  g_HandleEvent :: "'s EventHandler"

text \<open>
  The \<open>Element\<close> struct. \<open>HandleEvent\<close> and \<open>Render\<close> hold the element's read lock for
  the whole call, so no handler or child can change these fields while a call runs: the
  record is the value both methods read throughout. The mutex itself is not modelled.
\<close>

record 's Element =
  e_x :: goint
  e_y :: goint
  e_width :: goint
  e_height :: goint
  e_visible :: bool
  e_children :: "'s GUIElement list"
  e_handlers :: "EventType \<Rightarrow> 's EventHandler list option"

definition NewElement :: "goint \<Rightarrow> goint \<Rightarrow> goint \<Rightarrow> goint \<Rightarrow> 's Element" where
  "NewElement px py w h =
     \<lparr>e_x = px, e_y = py, e_width = w, e_height = h, e_visible = True,
      e_children = [], e_handlers = (\<lambda>t. None)\<rparr>"

definition SetSize :: "goint \<Rightarrow> goint \<Rightarrow> 's Element \<Rightarrow> 's Element" where
  "SetSize w h e = e\<lparr>e_width := w, e_height := h\<rparr>"

definition AddChild :: "'s GUIElement \<Rightarrow> 's Element \<Rightarrow> 's Element" where
  "AddChild child e = e\<lparr>e_children := e_children e @ [child]\<rparr>"

definition AddEventHandler :: "EventType \<Rightarrow> 's EventHandler \<Rightarrow> 's Element \<Rightarrow> 's Element" where
  "AddEventHandler eventType handler e =
     e\<lparr>e_handlers := (e_handlers e)(eventType \<mapsto>
        (case e_handlers e eventType of None \<Rightarrow> [] | Some hs \<Rightarrow> hs) @ [handler])\<rparr>"

text \<open>
  \<open>return x >= e.x && x < e.x+e.width && y >= e.y && y < e.y+e.height\<close>: signed
  comparisons, the two sums computed in 64 bits.
\<close>

definition ContainsPoint :: "'s Element \<Rightarrow> goint \<Rightarrow> goint \<Rightarrow> bool" where
  "ContainsPoint e px py \<longleftrightarrow>
     sint (e_x e) \<le> sint px \<and> sint px < sint (e_x e + e_width e) \<and>
     sint (e_y e) \<le> sint py \<and> sint py < sint (e_y e + e_height e)"

text \<open>The loop of \<open>Render\<close> over the children, in insertion order, stopping at the first error.\<close>

fun Render_children :: "'s GUIElement list \<Rightarrow> 's Canvas \<Rightarrow> 's \<Rightarrow> error option \<times> 's" where
  "Render_children [] canvas s = (None, s)"
| "Render_children (child # rest) canvas s =
     (case g_Render child canvas s of
        (Some err, s') \<Rightarrow> (Some err, s')
      | (None, s') \<Rightarrow> Render_children rest canvas s')"

definition Element_Render :: "'s Element \<Rightarrow> 's Canvas \<Rightarrow> 's \<Rightarrow> error option \<times> 's" where
  "Element_Render e canvas s =
     (if \<not> e_visible e then (None, s) else Render_children (e_children e) canvas s)"

text \<open>
  \<open>for i := len(e.children) - 1; i >= 0; i--\<close>: the second argument is \<open>i + 1\<close>, so
  \<open>0\<close> is the exit of the loop and every index read is in range.
\<close>

fun HandleEvent_children :: "'s GUIElement list \<Rightarrow> nat \<Rightarrow> Event \<Rightarrow> 's \<Rightarrow> bool \<times> 's" where
  "HandleEvent_children cs 0 event s = (False, s)"
| "HandleEvent_children cs (Suc i) event s =
     (case g_HandleEvent (cs ! i) event s of
        (True, s') \<Rightarrow> (True, s')
      | (False, s') \<Rightarrow> HandleEvent_children cs i event s')"

text \<open>\<open>for _, handler := range handlers\<close>, returning at the first handler that returns true.\<close>

fun HandleEvent_handlers :: "'s EventHandler list \<Rightarrow> Event \<Rightarrow> 's \<Rightarrow> bool \<times> 's" where
  "HandleEvent_handlers [] event s = (False, s)"
| "HandleEvent_handlers (handler # rest) event s =
     (case handler event s of
        (True, s') \<Rightarrow> (True, s')
      | (False, s') \<Rightarrow> HandleEvent_handlers rest event s')"

definition Element_HandleEvent :: "'s Element \<Rightarrow> Event \<Rightarrow> 's \<Rightarrow> bool \<times> 's" where
  "Element_HandleEvent e event s =
     (if (case event of ClickEvent px py b \<Rightarrow> \<not> ContainsPoint e px py | _ \<Rightarrow> False)
      then (False, s)
      else (case HandleEvent_children (e_children e) (length (e_children e)) event s of
              (True, s') \<Rightarrow> (True, s')
            | (False, s') \<Rightarrow>
                (case e_handlers e (Type event) of
                   None \<Rightarrow> (False, s')
                 | Some handlers \<Rightarrow> HandleEvent_handlers handlers event s')))"

text \<open>An \<open>Element\<close> used where a \<open>GUIElement\<close> is expected (it implements the interface).\<close>

definition Element_as_GUIElement :: "'s Element \<Rightarrow> 's GUIElement" where
  "Element_as_GUIElement e = \<lparr>g_Render = Element_Render e, g_HandleEvent = Element_HandleEvent e\<rparr>"

section \<open>Window (gui.go)\<close>

text \<open>The \<open>Renderer\<close> interface, by the two operations \<open>Show\<close> and \<open>Close\<close> delegate to.\<close>

record 's Renderer =
  r_Show :: "gostring \<Rightarrow> 's \<Rightarrow> error option \<times> 's"
  r_Close :: "'s \<Rightarrow> error option \<times> 's"

record 's Window =
  w_Element :: "'s Element"
  w_title :: gostring
  w_canvas :: "'s Canvas"
  w_renderer :: "'s Renderer"
  w_running :: bool

definition Show :: "'s Window \<Rightarrow> 's \<Rightarrow> error option \<times> 's Window \<times> 's" where
  "Show w s = (let (err, s') = r_Show (w_renderer w) (w_title w) s in (err, w\<lparr>w_running := True\<rparr>, s'))"

definition Close :: "'s Window \<Rightarrow> 's \<Rightarrow> error option \<times> 's Window \<times> 's" where
  "Close w s = (let (err, s') = r_Close (w_renderer w) s in (err, w\<lparr>w_running := False\<rparr>, s'))"

text \<open>
  \<open>Update\<close>. The statement \<open>w.canvas.Clear(colorful.Color{R: 1.0, G: 1.0, B: 1.0})\<close> stands
  alone in the source: the error it returns is bound to nothing.
\<close>

definition Update :: "'s Window \<Rightarrow> 's \<Rightarrow> error option \<times> 's" where
  "Update w s =
     (if \<not> w_running w then (None, s)
      else (let (cleared, s1) = Clear (w_canvas w) (Color 1 1 1) s in
            (case Element_Render (w_Element w) (w_canvas w) s1 of
               (Some err, s2) \<Rightarrow> (Some err, s2)
             | (None, s2) \<Rightarrow> Present (w_canvas w) s2)))"

section \<open>Fonts and text measurement\<close>

text \<open>
  A \<open>font.Face\<close> by what the code asks of it: the advance of a glyph (\<open>None\<close> when
  \<open>GlyphAdvance\<close> reports \<open>ok = false\<close>) and the ascent and descent of \<open>Metrics\<close>. Each is
  a \<open>fixed.Int26_6\<close>, a 32-bit integer in units of 1/64 pixel; \<open>Ceil\<close> is the library's
  \<open>int((x + 0x3f) >> 6)\<close>: the sum wraps in 32 bits, the shift keeps the sign, and the
  result is widened to a Go integer. A nil face is \<open>None\<close>.
\<close>

type_synonym Int26_6 = "32 word"

record Face =
  GlyphAdvance :: "rune \<Rightarrow> Int26_6 option"
  Ascent :: Int26_6
  Descent :: Int26_6

definition Ceil :: "Int26_6 \<Rightarrow> goint" where
  "Ceil a = scast (signed_drop_bit 6 (a + 0x3f))"

text \<open>\<open>basicfont.Face7x13\<close>: every glyph advances 7 pixels, ascent 11, descent 2.\<close>

definition Face7x13 :: Face where
  "Face7x13 = \<lparr>GlyphAdvance = (\<lambda>r. Some (7 * 64)), Ascent = 11 * 64, Descent = 2 * 64\<rparr>"

text \<open>
  \<open>norm.NFC.String\<close> belongs to a library outside the repository: the functions that
  call it take it as their first argument \<open>nfc\<close>.
\<close>

type_synonym normalizer = "gostring \<Rightarrow> gostring"

text \<open>\<open>unicode.IsSpace\<close> and \<open>unicode.IsControl\<close>, as the Go library documents them.\<close>

definition IsSpace :: "rune \<Rightarrow> bool" where
  "IsSpace r \<longleftrightarrow>
     r \<in> {0x09, 0x0A, 0x0B, 0x0C, 0x0D, 0x20, 0x85, 0xA0, 0x1680, 0x2028, 0x2029, 0x202F, 0x205F, 0x3000}
     \<or> (0x2000 \<le> r \<and> r \<le> 0x200A)"

definition IsControl :: "rune \<Rightarrow> bool" where
  "IsControl r \<longleftrightarrow> r \<le> 0x1F \<or> (0x7F \<le> r \<and> r \<le> 0x9F)"

text \<open>
  \<open>strings.Fields\<close>: the maximal runs of code points that are not white space. The
  first argument of \<open>Fields_from\<close> is the field being read.
\<close>

fun Fields_from :: "gostring \<Rightarrow> gostring \<Rightarrow> gostring list" where
  "Fields_from cur [] = (if cur = [] then [] else [cur])"
| "Fields_from cur (r # rs) =
     (if IsSpace r then (if cur = [] then Fields_from [] rs else cur # Fields_from [] rs)
      else Fields_from (cur @ [r]) rs)"

definition Fields :: "gostring \<Rightarrow> gostring list" where
  "Fields t = Fields_from [] t"

text \<open>\<open>measureTextWidth\<close>: the loop adds the ceiling of each advance that is reported.\<close>

definition measureTextWidth :: "gostring \<Rightarrow> Face option \<Rightarrow> goint" where
  "measureTextWidth t font =
     (case font of
        None \<Rightarrow> 0
      | Some f \<Rightarrow>
          if t = [] then 0
          else fold (\<lambda>r width. case GlyphAdvance f r of Some advance \<Rightarrow> width + Ceil advance
                                | None \<Rightarrow> width) t 0)"

text \<open>\<open>getCharWidth\<close> of input.go.\<close>

definition getCharWidth :: "rune \<Rightarrow> Face option \<Rightarrow> goint" where
  "getCharWidth r font =
     (case font of
        None \<Rightarrow> 7
      | Some f \<Rightarrow> (case GlyphAdvance f r of None \<Rightarrow> 7 | Some advance \<Rightarrow> Ceil advance))"

section \<open>Label (components/label.go)\<close>

datatype TextAlignment = AlignLeft | AlignCenter | AlignRight

record 's Label =
  l_Element :: "'s Element"
  l_text :: gostring
  l_font :: "Face option"
  l_color :: Color
  l_alignment :: TextAlignment
  l_wordWrap :: bool
  l_autoSize :: bool

text \<open>
  The loop of \<open>wrapText\<close> over the words: \<open>lines\<close> collects the finished lines,
  \<open>currentLine\<close> is the contents of the \<open>strings.Builder\<close>; \<open>32\<close> is the space.
\<close>

fun wrapText_loop :: "Face option \<Rightarrow> goint \<Rightarrow> gostring list \<Rightarrow> gostring list \<Rightarrow> gostring \<Rightarrow> gostring list" where
  "wrapText_loop font maxWidth [] lines currentLine =
     (if length currentLine > 0 then lines @ [currentLine] else lines)"
| "wrapText_loop font maxWidth (word # rest) lines currentLine =
     (let testLine = (if currentLine \<noteq> [] then currentLine @ [32] else currentLine) @ word in
      if sint (measureTextWidth testLine font) \<le> sint maxWidth
      then wrapText_loop font maxWidth rest lines
             ((if length currentLine > 0 then currentLine @ [32] else currentLine) @ word)
      else wrapText_loop font maxWidth rest
             (if length currentLine > 0 then lines @ [currentLine] else lines) word)"

definition wrapText :: "Face option \<Rightarrow> gostring \<Rightarrow> goint \<Rightarrow> gostring list" where
  "wrapText font t maxWidth =
     (if sint maxWidth \<le> 0 then [t]
      else (let words = Fields t in
            if length words = 0 then [[]]
            else wrapText_loop font maxWidth words [] []))"

text \<open>
  \<open>updateSize\<close>. All sizes are Go integers: the comparisons are signed, the product
  of the number of lines and the line height wraps.
\<close>

definition updateSize :: "'s Label \<Rightarrow> 's Label" where
  "updateSize l =
     (case l_font l of
        None \<Rightarrow> l\<lparr>l_Element := SetSize 0 0 (l_Element l)\<rparr>
      | Some f \<Rightarrow>
          if l_text l = [] then l\<lparr>l_Element := SetSize 0 0 (l_Element l)\<rparr>
          else (let lineHeight = Ceil (Ascent f + Descent f) in
                if \<not> l_wordWrap l
                then l\<lparr>l_Element :=
                        SetSize (measureTextWidth (l_text l) (l_font l)) lineHeight (l_Element l)\<rparr>
                else (let width0 = e_width (l_Element l);
                          width = (if sint width0 \<le> 0 then 200 else width0);
                          lines = wrapText (l_font l) (l_text l) width;
                          totalHeight = word_of_nat (length lines) * lineHeight;
                          maxWidth = fold (\<lambda>line m. let lineWidth = measureTextWidth line (l_font l)
                                                      in if sint lineWidth > sint m then lineWidth else m)
                                       lines 0
                      in l\<lparr>l_Element := SetSize maxWidth totalHeight (l_Element l)\<rparr>)))"

definition NewLabel :: "normalizer \<Rightarrow> gostring \<Rightarrow> 's Label" where
  "NewLabel nfc t =
     (let label = \<lparr>l_Element = NewElement 0 0 100 20, l_text = nfc t, l_font = Some Face7x13,
                    l_color = Color 0 0 0, l_alignment = AlignLeft, l_wordWrap = False,
                    l_autoSize = True\<rparr>
      in if l_autoSize label then updateSize label else label)"

definition Label_SetText :: "normalizer \<Rightarrow> gostring \<Rightarrow> 's Label \<Rightarrow> 's Label" where
  "Label_SetText nfc t l =
     (let l1 = l\<lparr>l_text := nfc t\<rparr> in if l_autoSize l1 then updateSize l1 else l1)"

definition Label_SetFont :: "Face option \<Rightarrow> 's Label \<Rightarrow> 's Label" where
  "Label_SetFont font l =
     (let l1 = l\<lparr>l_font := font\<rparr> in if l_autoSize l1 then updateSize l1 else l1)"

definition SetColor :: "Color \<Rightarrow> 's Label \<Rightarrow> 's Label" where
  "SetColor color l = l\<lparr>l_color := color\<rparr>"

definition SetAlignment :: "TextAlignment \<Rightarrow> 's Label \<Rightarrow> 's Label" where
  "SetAlignment alignment l = l\<lparr>l_alignment := alignment\<rparr>"

definition SetWordWrap :: "bool \<Rightarrow> 's Label \<Rightarrow> 's Label" where
  "SetWordWrap enable l = l\<lparr>l_wordWrap := enable\<rparr>"

definition SetAutoSize :: "bool \<Rightarrow> 's Label \<Rightarrow> 's Label" where
  "SetAutoSize enable l =
     (let l1 = l\<lparr>l_autoSize := enable\<rparr> in if enable then updateSize l1 else l1)"

section \<open>Input (components/input.go)\<close>

text \<open>
  The \<open>Input\<close> struct. The callbacks are functions of the host application: they act on
  the store and are taken not to call back into the input they belong to. A validator
  is a predicate on the candidate text. The five handlers that \<open>NewInput\<close> registers
  are closures over the input itself; they are the functions \<open>Input_handleClick\<close>, ...
  below, and the handler table of the embedded element does not list them.
\<close>

record 's Input =
  i_Element :: "'s Element"
  i_text :: gostring
  i_placeholder :: gostring
  i_font :: "Face option"
  i_textColor :: Color
  i_bgColor :: Color
  i_borderColor :: Color
  i_placeholderColor :: Color
  i_cursorPos :: int
  i_selectionStart :: int
  i_selectionEnd :: int
  i_focused :: bool
  i_maxLength :: int
  i_validator :: "(gostring \<Rightarrow> bool) option"
  i_onChange :: "(gostring \<Rightarrow> 's \<Rightarrow> 's) option"
  i_onSubmit :: "(gostring \<Rightarrow> 's \<Rightarrow> 's) option"
  i_onFocus :: "('s \<Rightarrow> 's) option"
  i_onBlur :: "('s \<Rightarrow> 's) option"

definition NewInput :: "'s Input" where
  "NewInput =
     \<lparr>i_Element = NewElement 0 0 150 25, i_text = [], i_placeholder = [],
      i_font = Some Face7x13, i_textColor = Color 0 0 0, i_bgColor = Color 1 1 1,
      i_borderColor = Color 0.7 0.7 0.7, i_placeholderColor = Color 0.6 0.6 0.6,
      i_cursorPos = 0, i_selectionStart = - 1, i_selectionEnd = - 1, i_focused = False,
      i_maxLength = - 1, i_validator = None, i_onChange = None, i_onSubmit = None,
      i_onFocus = None, i_onBlur = None\<rparr>"

text \<open>\<open>if cb != nil { cb(text) }\<close> and \<open>if cb != nil { cb() }\<close>.\<close>

definition fire_text :: "(gostring \<Rightarrow> 's \<Rightarrow> 's) option \<Rightarrow> gostring \<Rightarrow> 's \<Rightarrow> 's" where
  "fire_text cb t s = (case cb of None \<Rightarrow> s | Some f \<Rightarrow> f t s)"

definition fire :: "('s \<Rightarrow> 's) option \<Rightarrow> 's \<Rightarrow> 's" where
  "fire cb s = (case cb of None \<Rightarrow> s | Some f \<Rightarrow> f s)"

text \<open>\<open>i.validator != nil && !i.validator(t)\<close>.\<close>

definition rejects :: "'s Input \<Rightarrow> gostring \<Rightarrow> bool" where
  "rejects i t = (case i_validator i of None \<Rightarrow> False | Some v \<Rightarrow> \<not> v t)"

definition clearSelection :: "'s Input \<Rightarrow> 's Input" where
  "clearSelection i = i\<lparr>i_selectionStart := - 1, i_selectionEnd := - 1\<rparr>"

definition hasSelection :: "'s Input \<Rightarrow> bool" where
  "hasSelection i \<longleftrightarrow>
     i_selectionStart i \<ge> 0 \<and> i_selectionEnd i \<ge> 0 \<and> i_selectionStart i \<noteq> i_selectionEnd i"

definition Input_SetText :: "normalizer \<Rightarrow> gostring \<Rightarrow> 's Input \<Rightarrow> 's \<Rightarrow> 's Input \<times> 's" where
  "Input_SetText nfc t i s =
     (let normalizedText0 = nfc t;
          normalizedText =
            (if i_maxLength i > 0 \<and> int (length normalizedText0) > i_maxLength i
             then take (nat (i_maxLength i)) normalizedText0 else normalizedText0)
      in if rejects i normalizedText then (i, s)
         else (let i1 = clearSelection
                          (i\<lparr>i_text := normalizedText, i_cursorPos := int (length normalizedText)\<rparr>)
               in (i1, fire_text (i_onChange i1) (i_text i1) s)))"

definition GetText :: "'s Input \<Rightarrow> gostring" where
  "GetText i = i_text i"

definition SetPlaceholder :: "gostring \<Rightarrow> 's Input \<Rightarrow> 's Input" where
  "SetPlaceholder placeholder i = i\<lparr>i_placeholder := placeholder\<rparr>"

definition Input_SetFont :: "Face option \<Rightarrow> 's Input \<Rightarrow> 's Input" where
  "Input_SetFont font i = i\<lparr>i_font := font\<rparr>"

definition SetTextColor :: "Color \<Rightarrow> 's Input \<Rightarrow> 's Input" where
  "SetTextColor color i = i\<lparr>i_textColor := color\<rparr>"

definition SetBackgroundColor :: "Color \<Rightarrow> 's Input \<Rightarrow> 's Input" where
  "SetBackgroundColor color i = i\<lparr>i_bgColor := color\<rparr>"

definition SetBorderColor :: "Color \<Rightarrow> 's Input \<Rightarrow> 's Input" where
  "SetBorderColor color i = i\<lparr>i_borderColor := color\<rparr>"

definition SetMaxLength :: "int \<Rightarrow> 's Input \<Rightarrow> 's Input" where
  "SetMaxLength len i =
     (let i1 = i\<lparr>i_maxLength := len\<rparr> in
      if len > 0 \<and> int (length (i_text i1)) > len
      then (let i2 = i1\<lparr>i_text := take (nat len) (i_text i1)\<rparr> in
            if i_cursorPos i2 > len then i2\<lparr>i_cursorPos := len\<rparr> else i2)
      else i1)"

definition SetValidator :: "(gostring \<Rightarrow> bool) option \<Rightarrow> 's Input \<Rightarrow> 's Input" where
  "SetValidator validator i = i\<lparr>i_validator := validator\<rparr>"

definition SetOnChange :: "(gostring \<Rightarrow> 's \<Rightarrow> 's) option \<Rightarrow> 's Input \<Rightarrow> 's Input" where
  "SetOnChange callback i = i\<lparr>i_onChange := callback\<rparr>"

definition SetOnSubmit :: "(gostring \<Rightarrow> 's \<Rightarrow> 's) option \<Rightarrow> 's Input \<Rightarrow> 's Input" where
  "SetOnSubmit callback i = i\<lparr>i_onSubmit := callback\<rparr>"

definition SetOnFocus :: "('s \<Rightarrow> 's) option \<Rightarrow> 's Input \<Rightarrow> 's Input" where
  "SetOnFocus callback i = i\<lparr>i_onFocus := callback\<rparr>"

definition SetOnBlur :: "('s \<Rightarrow> 's) option \<Rightarrow> 's Input \<Rightarrow> 's Input" where
  "SetOnBlur callback i = i\<lparr>i_onBlur := callback\<rparr>"

definition Focus :: "'s Input \<Rightarrow> 's \<Rightarrow> 's Input \<times> 's" where
  "Focus i s = (let i1 = i\<lparr>i_focused := True\<rparr> in (i1, fire (i_onFocus i1) s))"

definition Blur :: "'s Input \<Rightarrow> 's \<Rightarrow> 's Input \<times> 's" where
  "Blur i s = (let i1 = clearSelection (i\<lparr>i_focused := False\<rparr>) in (i1, fire (i_onBlur i1) s))"

text \<open>
  From here on a result \<open>None\<close> is a run-time panic of the Go code: a slice expression
  out of range, or a failed type assertion on the event. \<open>runes[a:]\<close> panics unless
  \<open>0 \<le> a \<le> len(runes)\<close>; every \<open>runes[:a]\<close> below stands beside a \<open>runes[b:]\<close> with
  \<open>a \<le> b\<close>, so the range checks written here are the ones that decide.
\<close>

definition deleteSelection :: "'s Input \<Rightarrow> 's Input option" where
  "deleteSelection i =
     (if \<not> hasSelection i then Some i
      else (let start0 = i_selectionStart i; end0 = i_selectionEnd i;
                start = (if start0 > end0 then end0 else start0);
                end1 = (if start0 > end0 then start0 else end0);
                runes = i_text i
            in if end1 > int (length runes) then None
               else Some (clearSelection
                            (i\<lparr>i_text := take (nat start) runes @ drop (nat end1) runes,
                               i_cursorPos := start\<rparr>))))"

definition insertText :: "normalizer \<Rightarrow> gostring \<Rightarrow> 's Input \<Rightarrow> 's \<Rightarrow> ('s Input \<times> 's) option" where
  "insertText nfc t i s =
     (let normalizedText = nfc t in
      case (if hasSelection i then deleteSelection i else Some i) of
        None \<Rightarrow> None
      | Some i1 \<Rightarrow>
          (let runes = i_text i1;
               newRunes0 = normalizedText;
               totalLength = int (length runes) + int (length newRunes0);
               over = (i_maxLength i1 > 0 \<and> totalLength > i_maxLength i1);
               maxNewRunes = i_maxLength i1 - int (length runes)
           in if over \<and> maxNewRunes \<le> 0 then Some (i1, s)
              else (let newRunes = (if over then take (nat maxNewRunes) newRunes0 else newRunes0) in
                    if i_cursorPos i1 < 0 \<or> i_cursorPos i1 > int (length runes) then None
                    else (let newText = take (nat (i_cursorPos i1)) runes @ newRunes
                                          @ drop (nat (i_cursorPos i1)) runes
                          in if rejects i1 newText then Some (i1, s)
                             else (let i2 = i1\<lparr>i_text := newText,
                                                i_cursorPos := i_cursorPos i1 + int (length newRunes)\<rparr>
                                   in Some (i2, fire_text (i_onChange i2) (i_text i2) s))))))"

text \<open>Go's integer division truncates toward zero: \<open>charWidth / 2\<close>.\<close>

definition half :: "goint \<Rightarrow> goint" where
  "half k = word_of_int (if 0 \<le> sint k then sint k div 2 else - ((- sint k) div 2))"

text \<open>
  The loop of \<open>handleClick\<close> over the code points of the text: \<open>pos\<close> is the index of
  \<open>r\<close>, \<open>width\<close> the sum of the widths before it, and the last argument the cursor
  position, which the loop overwrites at every step and returns.
\<close>

fun handleClick_loop :: "Face option \<Rightarrow> goint \<Rightarrow> gostring \<Rightarrow> int \<Rightarrow> goint \<Rightarrow> int \<Rightarrow> int" where
  "handleClick_loop font relativeX [] pos width cursorPos = cursorPos"
| "handleClick_loop font relativeX (r # rest) pos width cursorPos =
     (let charWidth = getCharWidth r font in
      if sint (width + half charWidth) > sint relativeX then pos
      else handleClick_loop font relativeX rest (pos + 1) (width + charWidth) (pos + 1))"

definition Input_handleClick :: "Event \<Rightarrow> 's Input \<Rightarrow> 's \<Rightarrow> (bool \<times> 's Input \<times> 's) option" where
  "Input_handleClick event i s =
     (case event of
        ClickEvent px py b \<Rightarrow>
          if \<not> ContainsPoint (i_Element i) px py
          then (let (i1, s1) = (if i_focused i then Blur i s else (i, s)) in Some (False, i1, s1))
          else (let (i1, s1) = (if \<not> i_focused i then Focus i s else (i, s));
                    relativeX = px - e_x (i_Element i1) - 5;
                    i2 = (if sint relativeX \<le> 0 then i1\<lparr>i_cursorPos := 0\<rparr>
                          else i1\<lparr>i_cursorPos :=
                                    handleClick_loop (i_font i1) relativeX (i_text i1) 0 0 (i_cursorPos i1)\<rparr>)
                in Some (True, clearSelection i2, s1))
      | _ \<Rightarrow> None)"

definition Input_handleKeyPress :: "Event \<Rightarrow> 's Input \<Rightarrow> 's \<Rightarrow> (bool \<times> 's Input \<times> 's) option" where
  "Input_handleKeyPress event i s =
     (if \<not> i_focused i then Some (False, i, s)
      else (case event of
        KeyPressEvent key modifiers \<Rightarrow>
          if key = KeyBackspace then
            (case (if hasSelection i then deleteSelection i
                   else if i_cursorPos i > 0
                   then (if i_cursorPos i > int (length (i_text i)) then None
                         else Some (i\<lparr>i_text := take (nat (i_cursorPos i - 1)) (i_text i)
                                                  @ drop (nat (i_cursorPos i)) (i_text i),
                                      i_cursorPos := i_cursorPos i - 1\<rparr>))
                   else Some i) of
               None \<Rightarrow> None
             | Some i1 \<Rightarrow> Some (True, i1, fire_text (i_onChange i1) (i_text i1) s))
          else if key = KeyDelete then
            (case (if hasSelection i then deleteSelection i
                   else if i_cursorPos i < int (length (i_text i))
                   then (if i_cursorPos i < 0 then None
                         else Some (i\<lparr>i_text := take (nat (i_cursorPos i)) (i_text i)
                                                  @ drop (nat (i_cursorPos i + 1)) (i_text i)\<rparr>))
                   else Some i) of
               None \<Rightarrow> None
             | Some i1 \<Rightarrow> Some (True, i1, fire_text (i_onChange i1) (i_text i1) s))
          else if key = KeyArrowLeft then
            Some (True, clearSelection (if i_cursorPos i > 0 then i\<lparr>i_cursorPos := i_cursorPos i - 1\<rparr> else i), s)
          else if key = KeyArrowRight then
            Some (True, clearSelection (if i_cursorPos i < int (length (i_text i))
                                        then i\<lparr>i_cursorPos := i_cursorPos i + 1\<rparr> else i), s)
          else if key = KeyEnter then Some (True, i, fire_text (i_onSubmit i) (i_text i) s)
          else Some (False, i, s)
      | _ \<Rightarrow> None))"

definition Input_handleTextInput :: "normalizer \<Rightarrow> Event \<Rightarrow> 's Input \<Rightarrow> 's \<Rightarrow> (bool \<times> 's Input \<times> 's) option" where
  "Input_handleTextInput nfc event i s =
     (if \<not> i_focused i then Some (False, i, s)
      else (case event of
        TextInputEvent t \<Rightarrow>
          (let filtered = filter (\<lambda>r. \<not> (IsControl r \<and> r \<noteq> 9)) t in
           if filtered \<noteq> []
           then (case insertText nfc filtered i s of
                   None \<Rightarrow> None
                 | Some (i1, s1) \<Rightarrow> Some (True, i1, s1))
           else Some (True, i, s))
      | _ \<Rightarrow> None))"

definition Input_handleFocus :: "Event \<Rightarrow> 's Input \<Rightarrow> 's \<Rightarrow> (bool \<times> 's Input \<times> 's) option" where
  "Input_handleFocus event i s = (let (i1, s1) = Focus i s in Some (True, i1, s1))"

definition Input_handleBlur :: "Event \<Rightarrow> 's Input \<Rightarrow> 's \<Rightarrow> (bool \<times> 's Input \<times> 's) option" where
  "Input_handleBlur event i s = (let (i1, s1) = Blur i s in Some (True, i1, s1))"

text \<open>
  \<open>getCursorPixelPosition\<close>, which \<open>Render\<close> calls: it clamps the stored cursor before
  it sums the widths of the code points in front of it.
\<close>

definition getCursorPixelPosition :: "'s Input \<Rightarrow> goint \<times> 's Input" where
  "getCursorPixelPosition i =
     (if i_cursorPos i \<le> 0 then (0, i)
      else (let runes = i_text i;
                i1 = (if i_cursorPos i > int (length runes)
                      then i\<lparr>i_cursorPos := int (length runes)\<rparr> else i)
            in (fold (\<lambda>r width. width + getCharWidth r (i_font i1))
                  (take (nat (i_cursorPos i1)) runes) 0, i1)))"

text \<open>
  The operations on an \<open>Input\<close> that code outside the package can perform: the exported
  setters, \<open>Focus\<close> and \<open>Blur\<close>, an event delivered to one of the five registered
  handlers (by \<open>HandleEvent\<close> of the embedded element), the cursor clamp of \<open>Render\<close>,
  and the exported mutators of the embedded element, which can replace it by any other
  element value. \<open>Input_apply\<close> performs one operation, \<open>Input_run\<close> a sequence from
  left to right; a panic ends the run with \<open>None\<close>.
\<close>

datatype 's InputOp =
    OpSetText gostring
  | OpSetPlaceholder gostring
  | OpSetFont "Face option"
  | OpSetTextColor Color
  | OpSetBackgroundColor Color
  | OpSetBorderColor Color
  | OpSetMaxLength int
  | OpSetValidator "(gostring \<Rightarrow> bool) option"
  | OpSetOnChange "(gostring \<Rightarrow> 's \<Rightarrow> 's) option"
  | OpSetOnSubmit "(gostring \<Rightarrow> 's \<Rightarrow> 's) option"
  | OpSetOnFocus "('s \<Rightarrow> 's) option"
  | OpSetOnBlur "('s \<Rightarrow> 's) option"
  | OpFocus
  | OpBlur
  | OpClick Event
  | OpKeyPress Event
  | OpTextInput Event
  | OpFocusEvent Event
  | OpBlurEvent Event
  | OpRenderCursor
  | OpElement "'s Element"

fun Input_apply :: "normalizer \<Rightarrow> 's InputOp \<Rightarrow> 's Input \<times> 's \<Rightarrow> ('s Input \<times> 's) option" where
  "Input_apply nfc (OpSetText t) (i, s) = Some (Input_SetText nfc t i s)"
| "Input_apply nfc (OpSetPlaceholder p) (i, s) = Some (SetPlaceholder p i, s)"
| "Input_apply nfc (OpSetFont f) (i, s) = Some (Input_SetFont f i, s)"
| "Input_apply nfc (OpSetTextColor c) (i, s) = Some (SetTextColor c i, s)"
| "Input_apply nfc (OpSetBackgroundColor c) (i, s) = Some (SetBackgroundColor c i, s)"
| "Input_apply nfc (OpSetBorderColor c) (i, s) = Some (SetBorderColor c i, s)"
| "Input_apply nfc (OpSetMaxLength n) (i, s) = Some (SetMaxLength n i, s)"
| "Input_apply nfc (OpSetValidator v) (i, s) = Some (SetValidator v i, s)"
| "Input_apply nfc (OpSetOnChange cb) (i, s) = Some (SetOnChange cb i, s)"
| "Input_apply nfc (OpSetOnSubmit cb) (i, s) = Some (SetOnSubmit cb i, s)"
| "Input_apply nfc (OpSetOnFocus cb) (i, s) = Some (SetOnFocus cb i, s)"
| "Input_apply nfc (OpSetOnBlur cb) (i, s) = Some (SetOnBlur cb i, s)"
| "Input_apply nfc OpFocus (i, s) = Some (Focus i s)"
| "Input_apply nfc OpBlur (i, s) = Some (Blur i s)"
| "Input_apply nfc (OpClick ev) (i, s) = map_option snd (Input_handleClick ev i s)"
| "Input_apply nfc (OpKeyPress ev) (i, s) = map_option snd (Input_handleKeyPress ev i s)"
| "Input_apply nfc (OpTextInput ev) (i, s) = map_option snd (Input_handleTextInput nfc ev i s)"
| "Input_apply nfc (OpFocusEvent ev) (i, s) = map_option snd (Input_handleFocus ev i s)"
| "Input_apply nfc (OpBlurEvent ev) (i, s) = map_option snd (Input_handleBlur ev i s)"
| "Input_apply nfc OpRenderCursor (i, s) = Some (snd (getCursorPixelPosition i), s)"
| "Input_apply nfc (OpElement e) (i, s) = Some (i\<lparr>i_Element := e\<rparr>, s)"

fun Input_run :: "normalizer \<Rightarrow> 's InputOp list \<Rightarrow> 's Input \<times> 's \<Rightarrow> ('s Input \<times> 's) option" where
  "Input_run nfc [] st = Some st"
| "Input_run nfc (op # ops) st =
     (case Input_apply nfc op st of None \<Rightarrow> None | Some st' \<Rightarrow> Input_run nfc ops st')"

text \<open>An operation hands its handler an event of the kind the handler is registered for.\<close>

fun well_typed :: "'s InputOp \<Rightarrow> bool" where
  "well_typed (OpClick ev) = (Type ev = EventTypeClick)"
| "well_typed (OpKeyPress ev) = (Type ev = EventTypeKeyPress)"
| "well_typed (OpTextInput ev) = (Type ev = EventTypeTextInput)"
| "well_typed (OpFocusEvent ev) = (Type ev = EventTypeFocus)"
| "well_typed (OpBlurEvent ev) = (Type ev = EventTypeBlur)"
| "well_typed op = True"

section \<open>Button (components/button.go)\<close>

datatype ButtonState = ButtonStateNormal | ButtonStateHover | ButtonStatePressed | ButtonStateDisabled

text \<open>An \<open>image.Image\<close> is a value the button only stores and hands to the canvas.\<close>

typedecl Image

record 's Button =
  b_Element :: "'s Element"
  b_text :: gostring
  b_icon :: "Image option"
  b_font :: "Face option"
  b_state :: ButtonState
  b_enabled :: bool
  b_normalBgColor :: Color
  b_hoverBgColor :: Color
  b_pressedBgColor :: Color
  b_disabledBgColor :: Color
  b_textColor :: Color
  b_disabledTextColor :: Color
  b_borderColor :: Color
  b_onClick :: "('s \<Rightarrow> 's) option"
  b_onHover :: "('s \<Rightarrow> 's) option"
  b_onUnhover :: "('s \<Rightarrow> 's) option"
  b_borderWidth :: int
  b_cornerRadius :: int

definition NewButton :: "gostring \<Rightarrow> 's Button" where
  "NewButton t =
     \<lparr>b_Element = NewElement 0 0 100 30, b_text = t, b_icon = None, b_font = Some Face7x13,
      b_state = ButtonStateNormal, b_enabled = True,
      b_normalBgColor = Color 0.9 0.9 0.9, b_hoverBgColor = Color 0.8 0.8 0.9,
      b_pressedBgColor = Color 0.7 0.7 0.8, b_disabledBgColor = Color 0.95 0.95 0.95,
      b_textColor = Color 0 0 0, b_disabledTextColor = Color 0.6 0.6 0.6,
      b_borderColor = Color 0.6 0.6 0.6,
      b_onClick = None, b_onHover = None, b_onUnhover = None,
      b_borderWidth = 1, b_cornerRadius = 3\<rparr>"

definition SetEnabled :: "bool \<Rightarrow> 's Button \<Rightarrow> 's Button" where
  "SetEnabled enabled b =
     (let b1 = b\<lparr>b_enabled := enabled\<rparr> in
      if \<not> enabled then b1\<lparr>b_state := ButtonStateDisabled\<rparr>
      else if b_state b1 = ButtonStateDisabled then b1\<lparr>b_state := ButtonStateNormal\<rparr>
      else b1)"

definition SetOnClick :: "('s \<Rightarrow> 's) option \<Rightarrow> 's Button \<Rightarrow> 's Button" where
  "SetOnClick callback b = b\<lparr>b_onClick := callback\<rparr>"

text \<open>
  \<open>handleClick\<close>: the state is \<open>Pressed\<close> while the callback runs and \<open>Normal\<close> when the
  handler returns. The callback acts on the store.
\<close>

definition Button_handleClick :: "Event \<Rightarrow> 's Button \<Rightarrow> 's \<Rightarrow> (bool \<times> 's Button \<times> 's) option" where
  "Button_handleClick event b s =
     (if \<not> b_enabled b then Some (False, b, s)
      else (case event of
        ClickEvent px py button \<Rightarrow>
          if \<not> ContainsPoint (b_Element b) px py then Some (False, b, s)
          else (let b1 = b\<lparr>b_state := ButtonStatePressed\<rparr>;
                    s1 = fire (b_onClick b1) s;
                    b2 = b1\<lparr>b_state := ButtonStateNormal\<rparr>
                in Some (True, b2, s1))
      | _ \<Rightarrow> None))"

definition Button_handleMouseMove :: "Event \<Rightarrow> 's Button \<Rightarrow> 's \<Rightarrow> (bool \<times> 's Button \<times> 's) option" where
  "Button_handleMouseMove event b s =
     (if \<not> b_enabled b then Some (False, b, s)
      else (case event of
        MouseMoveEvent px py \<Rightarrow>
          (let wasHover = (b_state b = ButtonStateHover);
               isHover = ContainsPoint (b_Element b) px py
           in if isHover \<and> \<not> wasHover
              then (let b1 = b\<lparr>b_state := ButtonStateHover\<rparr> in Some (True, b1, fire (b_onHover b1) s))
              else if \<not> isHover \<and> wasHover
              then (let b1 = b\<lparr>b_state := ButtonStateNormal\<rparr> in Some (True, b1, fire (b_onUnhover b1) s))
              else Some (False, b, s))
      | _ \<Rightarrow> None))"

section \<open>Definitions that follow the words of the specification\<close>

text \<open>
  "Offered in order, returning true at the first that consumes it": the event is offered
  to each receiver of a list in turn, each on the store the one before left, until one
  returns true; the receivers after it are not called.
\<close>

fun offer_in_order :: "'s EventHandler list \<Rightarrow> Event \<Rightarrow> 's \<Rightarrow> bool \<times> 's" where
  "offer_in_order [] event s = (False, s)"
| "offer_in_order (receiver # rest) event s =
     (let (consumed, s') = receiver event s in
      if consumed then (True, s') else offer_in_order rest event s')"

text \<open>
  The receivers of an event at an element, in the order the specification gives: the
  children from the last added to the first, then the element's own handlers for the
  kind of the event in registration order.
\<close>

definition receivers :: "'s Element \<Rightarrow> Event \<Rightarrow> 's EventHandler list" where
  "receivers e event =
     map g_HandleEvent (rev (e_children e))
     @ (case e_handlers e (Type event) of None \<Rightarrow> [] | Some handlers \<Rightarrow> handlers)"

section \<open>Example values\<close>

text \<open>
  A handler that appends its name to a log of names and reports the event consumed or
  not; an element with one such click handler; and a parent with three such children
  \<open>A\<close>, \<open>B\<close>, \<open>C\<close> (names 1, 2, 3) added in this order, where \<open>A\<close> and \<open>C\<close> overlap.
\<close>

definition example_logger :: "nat \<Rightarrow> bool \<Rightarrow> nat list EventHandler" where
  "example_logger name consumes = (\<lambda>event log. (consumes, log @ [name]))"

definition example_child :: "goint \<Rightarrow> goint \<Rightarrow> goint \<Rightarrow> goint \<Rightarrow> nat \<Rightarrow> nat list GUIElement" where
  "example_child px py w h name =
     Element_as_GUIElement
       (AddEventHandler EventTypeClick (example_logger name True) (NewElement px py w h))"

definition example_parent :: "nat list Element" where
  "example_parent =
     AddEventHandler EventTypeKeyPress (example_logger 0 True)
       (AddEventHandler EventTypeClick (example_logger 0 True)
          (AddChild (example_child 5 5 10 10 3)
             (AddChild (example_child 20 20 5 5 2)
                (AddChild (example_child 0 0 10 10 1) (NewElement 0 0 100 100)))))"

text \<open>A button whose \<open>onClick\<close> counts the clicks in a store that is a number.\<close>

definition example_button :: "nat Button" where
  "example_button = SetOnClick (Some Suc) (NewButton [79, 75])"

text \<open>
  An input with \<open>maxLength = 5\<close> whose \<open>onChange\<close> appends the text it is given to a
  store that is a list of texts, and the code points of \<open>h\<close>, \<open>e\<close> with acute accent
  (U+00E9), \<open>l\<close>, \<open>l\<close>, \<open>o\<close>, space, \<open>w\<close>, \<open>o\<close>, \<open>r\<close>, \<open>l\<close>, \<open>d\<close>.
\<close>

definition example_input :: "gostring list Input" where
  "example_input = SetOnChange (Some (\<lambda>t log. log @ [t])) (SetMaxLength 5 NewInput)"

definition hello_world :: gostring where
  "hello_world = [104, 233, 108, 108, 111, 32, 119, 111, 114, 108, 100]"

text \<open>
  An input that accepts digits only, holding \<open>12345\<close> with the cursor at the end and the
  second and third code point selected (a selection is set by writing the two fields:
  no function of the package sets one).
\<close>

definition digits_only :: "gostring \<Rightarrow> bool" where
  "digits_only t = list_all (\<lambda>r. 48 \<le> r \<and> r \<le> 57) t"

definition example_selected :: "gostring list Input" where
  "example_selected =
     (SetValidator (Some digits_only) (SetOnChange (Some (\<lambda>t log. log @ [t])) NewInput))
       \<lparr>i_text := [49, 50, 51, 52, 53], i_cursorPos := 5,
        i_selectionStart := 1, i_selectionEnd := 3\<rparr>"

text \<open>
  A running window whose store is the log of the calls made on its canvas. \<open>Clear\<close>
  fails, the one child renders without error, \<open>Present\<close> succeeds.
\<close>

definition failing_clear_canvas :: "string list Canvas" where
  "failing_clear_canvas =
     \<lparr>Clear = (\<lambda>color log. (Some ''clear failed'', log @ [''Clear''])),
      Present = (\<lambda>log. (None, log @ [''Present'']))\<rparr>"

definition logging_child :: "string list GUIElement" where
  "logging_child =
     \<lparr>g_Render = (\<lambda>canvas log. (None, log @ [''Render''])),
      g_HandleEvent = (\<lambda>event log. (False, log))\<rparr>"

definition example_window :: "string list Window" where
  "example_window =
     \<lparr>w_Element = AddChild logging_child (NewElement 0 0 400 300), w_title = [],
      w_canvas = failing_clear_canvas,
      w_renderer = \<lparr>r_Show = (\<lambda>title log. (None, log)), r_Close = (\<lambda>log. (None, log))\<rparr>,
      w_running = True\<rparr>"

text \<open>
  A label made by \<open>NewLabel\<close> (auto-size on, word wrap off, the 7 by 13 face) from
  \<open>hello\<close>, two spaces, \<open>world\<close>.
\<close>

definition example_label :: "unit Label" where
  "example_label = NewLabel (\<lambda>t. t) [104, 101, 108, 108, 111, 32, 32, 119, 111, 114, 108, 100]"

section \<open>The invariant of Input\<close>

text \<open>
  The cursor lies between 0 and the code-point length of the text, and both selection
  fields hold the sentinel \<open>-1\<close>.
\<close>

definition Input_inv :: "'s Input \<Rightarrow> bool" where
  "Input_inv i \<longleftrightarrow>
     0 \<le> i_cursorPos i \<and> i_cursorPos i \<le> int (length (i_text i))
     \<and> i_selectionStart i = - 1 \<and> i_selectionEnd i = - 1"

text \<open>
  A session at an input: focus by a click, typing, cursor keys, deletions, a length
  limit, a click outside.
\<close>

definition example_session :: "gostring list InputOp list" where
  "example_session =
     [OpSetOnChange (Some (\<lambda>t log. log @ [t])),
      OpClick (ClickEvent 10 10 0),
      OpTextInput (TextInputEvent [104, 233, 108, 108, 111]),
      OpKeyPress (KeyPressEvent KeyArrowLeft 0),
      OpKeyPress (KeyPressEvent KeyBackspace 0),
      OpKeyPress (KeyPressEvent KeyDelete 0),
      OpSetMaxLength 2,
      OpClick (ClickEvent 30 10 0),
      OpSetText [119, 111, 114, 108, 100],
      OpRenderCursor,
      OpClick (ClickEvent 500 500 0)]"

text \<open>
  An input that accepts digits only and holds \<open>12\<close> with the cursor at the end, made by
  the exported operations.
\<close>

definition example_digits :: "gostring list Input" where
  "example_digits =
     fst (Input_SetText (\<lambda>t. t) [49, 50]
            (SetValidator (Some digits_only) (SetOnChange (Some (\<lambda>t log. log @ [t])) NewInput)) [])"

text \<open>The largest Go integer, and an element one pixel wide and high placed at that abscissa.\<close>

definition MaxInt :: goint where
  "MaxInt = 0x7FFFFFFFFFFFFFFF"

definition example_far_right :: "unit Element" where
  "example_far_right = NewElement MaxInt 0 1 1"

section \<open>Word wrap: definitions for the statement and its proof\<close>







section \<open>Hit testing\<close>

lemma sint_add_no_overflow:
  fixes a b :: goint
  assumes "- (2 ^ 63) \<le> sint a + sint b" and "sint a + sint b < 2 ^ 63"
  shows "sint (a + b) = sint a + sint b"
  using assms by (simp add: sint_word_ariths signed_take_bit_int_eq_self)

text \<open>
  With the sums the code computes, \<open>ContainsPoint\<close> is membership of the two half-open
  intervals for every element and point.
\<close>

lemma ContainsPoint_wrapped_bounds:
  "ContainsPoint e px py \<longleftrightarrow>
      sint px \<in> {sint (e_x e) ..< sint (e_x e + e_width e)} \<and>
      sint py \<in> {sint (e_y e) ..< sint (e_y e + e_height e)}"
  by (auto simp: ContainsPoint_def)

text \<open>
  C2 as it is worded, with the sums of the integers, fails where a sum leaves the range
  of a Go integer: the element one pixel wide and high at the largest abscissa has its
  own top-left corner inside the two intervals, and \<open>ContainsPoint\<close> returns false there,
  because \<open>x + width\<close> wrapped to the least integer.
\<close>

theorem ContainsPoint_overflow_counterexample:
  "sint MaxInt \<in> {sint (e_x example_far_right) ..<
                    sint (e_x example_far_right) + sint (e_width example_far_right)}
   \<and> sint (0 :: goint) \<in> {sint (e_y example_far_right) ..<
                    sint (e_y example_far_right) + sint (e_height example_far_right)}
   \<and> \<not> ContainsPoint example_far_right MaxInt 0"
  by (simp add: example_far_right_def MaxInt_def NewElement_def ContainsPoint_def)

text \<open>
  C2, amended. For every element whose sums \<open>x + width\<close> and \<open>y + height\<close> stay within
  the range of a Go integer, and every point: \<open>ContainsPoint(px, py)\<close> is true exactly
  when \<open>px\<close> lies in the half-open interval from \<open>x\<close> to \<open>x + width\<close> and \<open>py\<close> in the one
  from \<open>y\<close> to \<open>y + height\<close>. A point on the right or on the bottom edge is outside; the
  top-left corner is inside when width and height are positive.
\<close>

theorem ContainsPoint_without_overflow:
  assumes "- (2 ^ 63) \<le> sint (e_x e) + sint (e_width e)"
    and "sint (e_x e) + sint (e_width e) < 2 ^ 63"
    and "- (2 ^ 63) \<le> sint (e_y e) + sint (e_height e)"
    and "sint (e_y e) + sint (e_height e) < 2 ^ 63"
  shows "(ContainsPoint e px py \<longleftrightarrow>
            sint px \<in> {sint (e_x e) ..< sint (e_x e) + sint (e_width e)} \<and>
            sint py \<in> {sint (e_y e) ..< sint (e_y e) + sint (e_height e)})
         \<and> \<not> ContainsPoint e (e_x e + e_width e) py
         \<and> \<not> ContainsPoint e px (e_y e + e_height e)
         \<and> (0 < sint (e_width e) \<and> 0 < sint (e_height e) \<longrightarrow> ContainsPoint e (e_x e) (e_y e))"
  using assms by (auto simp: ContainsPoint_def sint_add_no_overflow)

theorem ContainsPoint_without_overflow_witness:
  "sint (10 :: goint) + sint (100 :: goint) < 2 ^ 63 \<and> sint (20 :: goint) + sint (50 :: goint) < 2 ^ 63
   \<and> ContainsPoint (NewElement 10 20 100 50 :: unit Element) 10 20
   \<and> ContainsPoint (NewElement 10 20 100 50 :: unit Element) 109 69
   \<and> \<not> ContainsPoint (NewElement 10 20 100 50 :: unit Element) 110 20
   \<and> \<not> ContainsPoint (NewElement 10 20 100 50 :: unit Element) 10 70"
proof -
  let ?e = "NewElement 10 20 100 50 :: unit Element"
  have h: "- (2 ^ 63) \<le> sint (e_x ?e) + sint (e_width ?e)" "sint (e_x ?e) + sint (e_width ?e) < 2 ^ 63"
    "- (2 ^ 63) \<le> sint (e_y ?e) + sint (e_height ?e)" "sint (e_y ?e) + sint (e_height ?e) < 2 ^ 63"
    by (simp_all add: NewElement_def)
  have a: "ContainsPoint ?e 10 20"
    using ContainsPoint_without_overflow [OF h, of 10 20] by (simp add: NewElement_def)
  have b: "ContainsPoint ?e 109 69"
    using ContainsPoint_without_overflow [OF h, of 109 69] by (simp add: NewElement_def)
  have c: "\<not> ContainsPoint ?e 110 20"
    using ContainsPoint_without_overflow [OF h, of 110 20] by (simp add: NewElement_def)
  have d: "\<not> ContainsPoint ?e 10 70"
    using ContainsPoint_without_overflow [OF h, of 10 70] by (simp add: NewElement_def)
  from a b c d show ?thesis by simp
qed

section \<open>Event dispatch\<close>

lemma HandleEvent_handlers_offer:
  "HandleEvent_handlers hs ev s = offer_in_order hs ev s"
  by (induction hs arbitrary: s) (auto split: prod.splits bool.splits)

lemma offer_in_order_append:
  "offer_in_order (xs @ ys) ev s =
     (case offer_in_order xs ev s of
        (True, s') \<Rightarrow> (True, s')
      | (False, s') \<Rightarrow> offer_in_order ys ev s')"
  by (induction xs arbitrary: s) (auto split: prod.splits bool.splits)

text \<open>The descending index loop visits the first \<open>n\<close> children from the last to the first.\<close>

lemma HandleEvent_children_offer:
  "n \<le> length cs \<Longrightarrow>
   HandleEvent_children cs n ev s = offer_in_order (map g_HandleEvent (rev (take n cs))) ev s"
  by (induction n arbitrary: s) (auto simp: take_Suc_conv_app_nth split: prod.splits bool.splits)

lemma HandleEvent_unfiltered:
  "\<not> (case ev of ClickEvent px py b \<Rightarrow> \<not> ContainsPoint e px py | _ \<Rightarrow> False) \<Longrightarrow>
   Element_HandleEvent e ev s = offer_in_order (receivers e ev) ev s"
  by (simp add: Element_HandleEvent_def receivers_def offer_in_order_append
      HandleEvent_children_offer HandleEvent_handlers_offer
      split: prod.splits bool.splits option.splits)

text \<open>
  C1. A click outside the bounds of the element returns false and leaves the store as
  it was, whatever the children and handlers are: none of them is called. A click inside
  the bounds, and an event of any other kind wherever the element lies, is offered to
  the children from the last added to the first and then to the element's handlers for
  the kind of the event in registration order; the first receiver that returns true
  ends the dispatch with true, and the result is false when none does.
\<close>

theorem HandleEvent_dispatch:
  "(\<forall>px py b. ev = ClickEvent px py b \<and> \<not> ContainsPoint e px py \<longrightarrow>
       Element_HandleEvent e ev s = (False, s))
   \<and> (\<forall>px py b. ev = ClickEvent px py b \<and> ContainsPoint e px py \<longrightarrow>
       Element_HandleEvent e ev s = offer_in_order (receivers e ev) ev s)
   \<and> (Type ev \<noteq> EventTypeClick \<longrightarrow>
       Element_HandleEvent e ev s = offer_in_order (receivers e ev) ev s)"
proof (intro conjI allI impI)
  fix px py b assume "ev = ClickEvent px py b \<and> \<not> ContainsPoint e px py"
  then show "Element_HandleEvent e ev s = (False, s)"
    by (simp add: Element_HandleEvent_def)
next
  fix px py b assume "ev = ClickEvent px py b \<and> ContainsPoint e px py"
  then show "Element_HandleEvent e ev s = offer_in_order (receivers e ev) ev s"
    by (simp add: HandleEvent_unfiltered)
next
  assume "Type ev \<noteq> EventTypeClick"
  then show "Element_HandleEvent e ev s = offer_in_order (receivers e ev) ev s"
    by (cases ev) (simp_all add: HandleEvent_unfiltered)
qed

lemmas example_defs =
  example_parent_def example_child_def example_logger_def Element_as_GUIElement_def
  AddEventHandler_def AddChild_def NewElement_def

text \<open>
  The scenario of the specification: a click inside \<open>A\<close> and \<open>C\<close> reaches \<open>C\<close> alone; a
  click inside the parent and outside every child reaches the parent's handler after the
  three children declined; a click outside the parent reaches nothing; a key press
  reaches the parent's handler for key presses.
\<close>

theorem HandleEvent_dispatch_witness:
  "ContainsPoint example_parent 7 7
   \<and> Element_HandleEvent example_parent (ClickEvent 7 7 0) [] = (True, [3])
   \<and> ContainsPoint example_parent 50 50
   \<and> Element_HandleEvent example_parent (ClickEvent 50 50 0) [] = (True, [0])
   \<and> \<not> ContainsPoint example_parent 150 50
   \<and> Element_HandleEvent example_parent (ClickEvent 150 50 0) [] = (False, [])
   \<and> Element_HandleEvent example_parent (KeyPressEvent 1 0) [] = (True, [0])"
proof -
  have in1: "ContainsPoint example_parent 7 7"
    and in2: "ContainsPoint example_parent 50 50"
    and out: "\<not> ContainsPoint example_parent 150 50"
    by (simp_all add: example_defs ContainsPoint_def)
  have a: "Element_HandleEvent example_parent (ClickEvent 7 7 0) [] =
           offer_in_order (receivers example_parent (ClickEvent 7 7 0)) (ClickEvent 7 7 0) []"
    using HandleEvent_dispatch [of "ClickEvent 7 7 0" example_parent "[]"] in1 by blast
  have b: "Element_HandleEvent example_parent (ClickEvent 50 50 0) [] =
           offer_in_order (receivers example_parent (ClickEvent 50 50 0)) (ClickEvent 50 50 0) []"
    using HandleEvent_dispatch [of "ClickEvent 50 50 0" example_parent "[]"] in2 by blast
  have c: "Element_HandleEvent example_parent (ClickEvent 150 50 0) [] = (False, [])"
    using HandleEvent_dispatch [of "ClickEvent 150 50 0" example_parent "[]"] out by blast
  have d: "Element_HandleEvent example_parent (KeyPressEvent 1 0) [] =
           offer_in_order (receivers example_parent (KeyPressEvent 1 0)) (KeyPressEvent 1 0) []"
    using HandleEvent_dispatch [of "KeyPressEvent 1 0" example_parent "[]"] by simp
  have a': "offer_in_order (receivers example_parent (ClickEvent 7 7 0)) (ClickEvent 7 7 0) [] = (True, [3])"
    by (simp add: receivers_def example_defs Element_HandleEvent_def ContainsPoint_def)
  have b': "offer_in_order (receivers example_parent (ClickEvent 50 50 0)) (ClickEvent 50 50 0) [] = (True, [0])"
    by (simp add: receivers_def example_defs Element_HandleEvent_def ContainsPoint_def)
  have d': "offer_in_order (receivers example_parent (KeyPressEvent 1 0)) (KeyPressEvent 1 0) [] = (True, [0])"
    by (simp add: receivers_def example_defs Element_HandleEvent_def ContainsPoint_def)
  from in1 in2 out a b c d a' b' d' show ?thesis by simp
qed

section \<open>Button\<close>

text \<open>
  C9. A click handled while the button is not enabled returns false and leaves the
  store as it was, whatever \<open>onClick\<close> is: the callback is not invoked. \<open>SetEnabled(false)\<close>
  sets the state \<open>Disabled\<close>. \<open>SetEnabled(true)\<close> yields \<open>Normal\<close> from \<open>Disabled\<close> and
  leaves every other state, \<open>Hover\<close> and \<open>Pressed\<close> among them, as it is. A click within
  the bounds of an enabled button invokes \<open>onClick\<close> (when one is set) and returns true
  with the state \<open>Normal\<close> and nothing else changed.
\<close>

theorem Button_click_and_enable:
  "(\<not> b_enabled b \<longrightarrow> Button_handleClick ev b s = Some (False, b, s))
   \<and> b_state (SetEnabled False b) = ButtonStateDisabled
   \<and> b_state (SetEnabled True b) =
       (if b_state b = ButtonStateDisabled then ButtonStateNormal else b_state b)
   \<and> (b_enabled b \<and> ContainsPoint (b_Element b) px py \<longrightarrow>
        Button_handleClick (ClickEvent px py button) b s =
          Some (True, b\<lparr>b_state := ButtonStateNormal\<rparr>, fire (b_onClick b) s))"
  by (simp add: Button_handleClick_def SetEnabled_def Let_def)

theorem Button_click_and_enable_witness:
  "Button_handleClick (ClickEvent 10 10 0) (SetEnabled False example_button) 0
     = Some (False, SetEnabled False example_button, 0)
   \<and> b_state (SetEnabled False example_button) = ButtonStateDisabled
   \<and> b_state (SetEnabled True (SetEnabled False example_button)) = ButtonStateNormal
   \<and> b_state (SetEnabled True (example_button\<lparr>b_state := ButtonStateHover\<rparr>)) = ButtonStateHover
   \<and> b_state (SetEnabled True (example_button\<lparr>b_state := ButtonStatePressed\<rparr>)) = ButtonStatePressed
   \<and> Button_handleClick (ClickEvent 10 10 0) example_button 0
     = Some (True, example_button\<lparr>b_state := ButtonStateNormal\<rparr>, 1)"
proof -
  have dis: "\<not> b_enabled (SetEnabled False example_button)"
    by (simp add: SetEnabled_def)
  have en: "b_enabled example_button \<and> ContainsPoint (b_Element example_button) 10 10"
    by (simp add: example_button_def SetOnClick_def NewButton_def NewElement_def ContainsPoint_def)
  have fired: "fire (b_onClick example_button) 0 = 1"
    by (simp add: example_button_def SetOnClick_def NewButton_def fire_def)
  have a: "Button_handleClick (ClickEvent 10 10 0) (SetEnabled False example_button) 0
            = Some (False, SetEnabled False example_button, 0)"
    using Button_click_and_enable [of "SetEnabled False example_button" "ClickEvent 10 10 0" 0] dis
    by blast
  have b: "b_state (SetEnabled False example_button) = ButtonStateDisabled"
    using Button_click_and_enable [of example_button] by blast
  have c: "b_state (SetEnabled True (SetEnabled False example_button)) = ButtonStateNormal"
    using Button_click_and_enable [of "SetEnabled False example_button"] b by simp
  have d: "b_state (SetEnabled True (example_button\<lparr>b_state := ButtonStateHover\<rparr>)) = ButtonStateHover"
    using Button_click_and_enable [of "example_button\<lparr>b_state := ButtonStateHover\<rparr>"] by simp
  have e: "b_state (SetEnabled True (example_button\<lparr>b_state := ButtonStatePressed\<rparr>)) = ButtonStatePressed"
    using Button_click_and_enable [of "example_button\<lparr>b_state := ButtonStatePressed\<rparr>"] by simp
  have f: "Button_handleClick (ClickEvent 10 10 0) example_button 0
            = Some (True, example_button\<lparr>b_state := ButtonStateNormal\<rparr>, 1)"
    using Button_click_and_enable [where b = example_button and s = 0 and px = 10 and py = 10 and button = 0]
      en fired by auto
  from a b c d e f show ?thesis by simp
qed

section \<open>Input: SetText\<close>

text \<open>
  C4. With \<open>maxLength = n\<close>, \<open>n\<close> at least 1, and no validator, \<open>SetText(t)\<close> stores the
  normalised text cut to its first \<open>n\<close> code points (all of it when it has fewer), puts
  the cursor at the code-point length of the stored text, leaves no selection and invokes
  \<open>onChange\<close> (when one is set) with the stored text. For a text whose normal form is
  "hello world" with an acute accent on the e, and \<open>maxLength = 5\<close>, the stored text is the
  five code points up to the first \<open>o\<close> and the cursor is 5.
\<close>

theorem Input_SetText_truncates:
  "(i_maxLength i = n \<and> 1 \<le> n \<and> i_validator i = None \<longrightarrow>
      (let (i', s') = Input_SetText nfc t i s in
         GetText i' = take (nat n) (nfc t)
         \<and> length (GetText i') \<le> nat n
         \<and> i_cursorPos i' = int (length (GetText i'))
         \<and> i_selectionStart i' = - 1 \<and> i_selectionEnd i' = - 1 \<and> \<not> hasSelection i'
         \<and> s' = fire_text (i_onChange i) (GetText i') s))
   \<and> (i_maxLength i = 5 \<and> i_validator i = None \<and> nfc t = hello_world \<longrightarrow>
        GetText (fst (Input_SetText nfc t i s)) = [104, 233, 108, 108, 111]
        \<and> i_cursorPos (fst (Input_SetText nfc t i s)) = 5)"
  by (auto simp: Input_SetText_def GetText_def rejects_def clearSelection_def hasSelection_def
      hello_world_def Let_def)

theorem Input_SetText_truncates_witness:
  "i_maxLength example_input = 5 \<and> i_validator example_input = None
   \<and> GetText (fst (Input_SetText (\<lambda>t. t) hello_world example_input [])) = [104, 233, 108, 108, 111]
   \<and> i_cursorPos (fst (Input_SetText (\<lambda>t. t) hello_world example_input [])) = 5
   \<and> \<not> hasSelection (fst (Input_SetText (\<lambda>t. t) hello_world example_input []))
   \<and> snd (Input_SetText (\<lambda>t. t) hello_world example_input []) = [[104, 233, 108, 108, 111]]"
proof -
  have pre: "i_maxLength example_input = 5 \<and> (1::int) \<le> 5 \<and> i_validator example_input = None"
    by (simp add: example_input_def SetOnChange_def SetMaxLength_def NewInput_def)
  have cb: "i_onChange example_input = Some (\<lambda>t log. log @ [t])"
    by (simp add: example_input_def SetOnChange_def SetMaxLength_def NewInput_def)
  have tk: "take (nat 5) hello_world = [104, 233, 108, 108, 111]"
    by (simp add: hello_world_def)
  obtain i' s' where r: "Input_SetText (\<lambda>t. t) hello_world example_input [] = (i', s')"
    by (cases "Input_SetText (\<lambda>t. t) hello_world example_input []")
  from Input_SetText_truncates [of example_input 5 "\<lambda>t. t" hello_world "[]"] pre r
  have "GetText i' = take (nat 5) hello_world \<and> i_cursorPos i' = int (length (GetText i'))
        \<and> \<not> hasSelection i' \<and> s' = fire_text (i_onChange example_input) (GetText i') []"
    by simp
  with tk cb r pre show ?thesis by (simp add: fire_text_def)
qed

section \<open>Input: insertText\<close>

text \<open>
  Without a selection and with the cursor inside the text, \<open>insertText\<close> inserts at the
  cursor what the length limit leaves of the normalised text: nothing changes when no
  room remains or the validator rejects the new text; otherwise the cursor advances by
  the number of code points inserted and \<open>onChange\<close> is invoked with the new text.
\<close>

lemma insertText_without_selection:
  assumes "\<not> hasSelection i" and "0 \<le> i_cursorPos i" and "i_cursorPos i \<le> int (length (i_text i))"
  shows "insertText nfc t i s =
     (let over = (i_maxLength i > 0 \<and> int (length (i_text i)) + int (length (nfc t)) > i_maxLength i);
          room = i_maxLength i - int (length (i_text i))
      in if over \<and> room \<le> 0 then Some (i, s)
         else (let inserted = (if over then take (nat room) (nfc t) else nfc t);
                   newText = take (nat (i_cursorPos i)) (i_text i) @ inserted
                               @ drop (nat (i_cursorPos i)) (i_text i)
               in if rejects i newText then Some (i, s)
                  else Some (i\<lparr>i_text := newText,
                                i_cursorPos := i_cursorPos i + int (length inserted)\<rparr>,
                             fire_text (i_onChange i) newText s)))"
  using assms unfolding insertText_def Let_def by auto

section \<open>Window: the update pass\<close>

lemma Update_not_running: "\<not> w_running w \<Longrightarrow> Update w s = (None, s)"
  by (simp add: Update_def)

text \<open>
  In a running window the pass goes on from the store \<open>Clear\<close> leaves, whatever \<open>Clear\<close>
  returned: an error of \<open>Render\<close> ends it and is returned, otherwise the result is that
  of \<open>Present\<close>.
\<close>

lemma Update_running:
  assumes "w_running w" and "Clear (w_canvas w) (Color 1 1 1) s = (cleared, s1)"
  shows "Update w s =
     (case Element_Render (w_Element w) (w_canvas w) s1 of
        (Some err, s2) \<Rightarrow> (Some err, s2)
      | (None, s2) \<Rightarrow> Present (w_canvas w) s2)"
  using assms by (simp add: Update_def)

text \<open>The first child whose \<open>Render\<close> fails ends the loop: the children after it are not rendered.\<close>

lemma Render_children_fail_fast:
  assumes "Render_children before canvas s = (None, s1)"
    and "g_Render child canvas s1 = (Some err, s2)"
  shows "Render_children (before @ child # rest) canvas s = (Some err, s2)"
  using assms by (induction before arbitrary: s) (auto split: prod.splits option.splits)

text \<open>
  C7, at a canvas whose \<open>Clear\<close> fails. The window is running, \<open>Clear\<close> returns an error,
  and \<open>Update\<close> goes on to render the child and to present, and returns nil.
\<close>

theorem Update_ignores_Clear_error:
  "w_running example_window
   \<and> Clear (w_canvas example_window) (Color 1 1 1) [] = (Some ''clear failed'', [''Clear''])
   \<and> Update example_window [] = (None, [''Clear'', ''Render'', ''Present''])"
  by (simp add: example_window_def failing_clear_canvas_def logging_child_def Update_def
      Element_Render_def AddChild_def NewElement_def)

section \<open>Label: size recomputation\<close>

text \<open>
  With auto-size on, \<open>SetText\<close> and \<open>SetFont\<close> end with \<open>updateSize\<close>, as does
  \<open>SetAutoSize(true)\<close>; \<open>SetColor\<close>, \<open>SetAlignment\<close> and \<open>SetWordWrap\<close> leave the embedded
  element as it is.
\<close>

lemma Label_setters_recompute:
  "l_autoSize l \<Longrightarrow> Label_SetText nfc t l = updateSize (l\<lparr>l_text := nfc t\<rparr>)"
  "l_autoSize l \<Longrightarrow> Label_SetFont font l = updateSize (l\<lparr>l_font := font\<rparr>)"
  "SetAutoSize True l = updateSize (l\<lparr>l_autoSize := True\<rparr>)"
  "l_Element (SetColor color l) = l_Element l"
  "l_Element (SetAlignment alignment l) = l_Element l"
  "l_Element (SetWordWrap enable l) = l_Element l"
  by (simp_all add: Label_SetText_def Label_SetFont_def SetAutoSize_def SetColor_def
      SetAlignment_def SetWordWrap_def)

lemma updateSize_collapses:
  "l_text l = [] \<or> l_font l = None \<Longrightarrow>
   e_width (l_Element (updateSize l)) = 0 \<and> e_height (l_Element (updateSize l)) = 0"
  by (auto simp: updateSize_def SetSize_def split: option.splits)

text \<open>
  C8, at \<open>SetWordWrap\<close>. The label has auto-size on and the size 84 by 13 of its text on
  one line. \<open>SetWordWrap(true)\<close> leaves the size 84 by 13; a size recomputation in the
  state it leaves gives 77 by 13 (the wrapped line joins the two words by one space).
\<close>

theorem SetWordWrap_keeps_stale_size:
  "l_autoSize example_label
   \<and> e_width (l_Element example_label) = 84 \<and> e_height (l_Element example_label) = 13
   \<and> e_width (l_Element (SetWordWrap True example_label)) = 84
   \<and> e_height (l_Element (SetWordWrap True example_label)) = 13
   \<and> e_width (l_Element (updateSize (SetWordWrap True example_label))) = 77
   \<and> e_height (l_Element (updateSize (SetWordWrap True example_label))) = 13"
  by (simp add: example_label_def NewLabel_def SetWordWrap_def updateSize_def SetSize_def
      NewElement_def Face7x13_def measureTextWidth_def Ceil_def wrapText_def Fields_def
      IsSpace_def Let_def)

section \<open>Input: the invariant is kept\<close>

text \<open>
  Every operation keeps \<open>Input_inv\<close>, and from a state that satisfies it no operation
  that hands its handler an event of the handler's kind panics.
\<close>

lemma handleClick_loop_bounds:
  "pos \<le> cur \<Longrightarrow> cur \<le> pos + int (length rs) \<Longrightarrow>
   pos \<le> handleClick_loop font rx rs pos w cur
   \<and> handleClick_loop font rx rs pos w cur \<le> pos + int (length rs)"
proof (induction rs arbitrary: pos w cur)
  case Nil
  then show ?case by simp
next
  case (Cons r rs)
  from Cons.IH [of "pos + 1" "pos + 1" "w + getCharWidth r font"]
  show ?case by (auto simp: Let_def)
qed

lemma inv_NewInput: "Input_inv NewInput"
  by (simp add: Input_inv_def NewInput_def)

lemma inv_no_selection: "Input_inv i \<Longrightarrow> \<not> hasSelection i"
  by (simp add: Input_inv_def hasSelection_def)

lemma inv_SetText: "Input_inv (fst (Input_SetText nfc t i s))" if "Input_inv i"
  using that by (auto simp: Input_inv_def Input_SetText_def clearSelection_def Let_def)

lemma inv_SetMaxLength: "Input_inv i \<Longrightarrow> Input_inv (SetMaxLength n i)"
  by (auto simp: Input_inv_def SetMaxLength_def Let_def)

lemma inv_Focus: "Input_inv i \<Longrightarrow> Input_inv (fst (Focus i s))"
  by (simp add: Input_inv_def Focus_def Let_def)

lemma inv_Blur: "Input_inv i \<Longrightarrow> Input_inv (fst (Blur i s))"
  by (simp add: Input_inv_def Blur_def clearSelection_def Let_def)

lemma inv_insertText:
  assumes "Input_inv i"
  shows "\<exists>i' s'. insertText nfc t i s = Some (i', s') \<and> Input_inv i'"
proof -
  from assms have ns: "\<not> hasSelection i" and lo: "0 \<le> i_cursorPos i"
    and hi: "i_cursorPos i \<le> int (length (i_text i))"
    by (simp_all add: inv_no_selection Input_inv_def)
  show ?thesis
    using assms lo hi
    by (auto simp: insertText_without_selection [OF ns lo hi] Let_def Input_inv_def)
qed

lemma inv_handleClick:
  assumes "Input_inv i" and "Type ev = EventTypeClick"
  shows "\<exists>r i' s'. Input_handleClick ev i s = Some (r, i', s') \<and> Input_inv i'"
proof -
  from assms(2) obtain px py b where ev: "ev = ClickEvent px py b" by (cases ev) simp_all
  from assms(1) have c: "0 \<le> i_cursorPos i" "i_cursorPos i \<le> 0 + int (length (i_text i))"
    by (simp_all add: Input_inv_def)
  note lb = handleClick_loop_bounds [OF c]
  show ?thesis
    using assms(1) lb
    by (auto simp: ev Input_handleClick_def Input_inv_def Focus_def Blur_def clearSelection_def Let_def)
qed

lemma inv_handleKeyPress:
  assumes "Input_inv i" and "Type ev = EventTypeKeyPress"
  shows "\<exists>r i' s'. Input_handleKeyPress ev i s = Some (r, i', s') \<and> Input_inv i'"
proof -
  from assms(2) obtain k m where ev: "ev = KeyPressEvent k m" by (cases ev) simp_all
  from assms(1) have ns: "\<not> hasSelection i" by (rule inv_no_selection)
  show ?thesis
    using assms(1) ns
    by (auto simp: ev Input_handleKeyPress_def Input_inv_def clearSelection_def Let_def)
qed

lemma inv_handleTextInput:
  assumes "Input_inv i" and "Type ev = EventTypeTextInput"
  shows "\<exists>r i' s'. Input_handleTextInput nfc ev i s = Some (r, i', s') \<and> Input_inv i'"
proof -
  from assms(2) obtain t where ev: "ev = TextInputEvent t" by (cases ev) simp_all
  show ?thesis
  proof (cases "i_focused i \<and> filter (\<lambda>r. \<not> (IsControl r \<and> r \<noteq> 9)) t \<noteq> []")
    case True
    from inv_insertText [OF assms(1), of nfc "filter (\<lambda>r. \<not> (IsControl r \<and> r \<noteq> 9)) t" s]
    obtain i' s' where "insertText nfc (filter (\<lambda>r. \<not> (IsControl r \<and> r \<noteq> 9)) t) i s = Some (i', s')"
      and "Input_inv i'" by blast
    with True show ?thesis by (auto simp: ev Input_handleTextInput_def Let_def)
  next
    case False
    with assms(1) show ?thesis by (auto simp: ev Input_handleTextInput_def Let_def)
  qed
qed

lemma inv_getCursorPixelPosition: "Input_inv i \<Longrightarrow> Input_inv (snd (getCursorPixelPosition i))"
  by (auto simp: Input_inv_def getCursorPixelPosition_def Let_def)

lemma inv_apply:
  assumes "Input_inv i" and "well_typed op"
  shows "\<exists>i' s'. Input_apply nfc op (i, s) = Some (i', s') \<and> Input_inv i'"
proof (cases op)
  case (OpSetText t)
  with inv_SetText [OF assms(1), of nfc t s] show ?thesis
    by (cases "Input_SetText nfc t i s") simp
next
  case (OpSetMaxLength n)
  with inv_SetMaxLength [OF assms(1)] show ?thesis by simp
next
  case OpFocus
  with inv_Focus [OF assms(1), of s] show ?thesis by (cases "Focus i s") simp
next
  case OpBlur
  with inv_Blur [OF assms(1), of s] show ?thesis by (cases "Blur i s") simp
next
  case (OpClick ev)
  with assms(2) inv_handleClick [OF assms(1), of ev s] show ?thesis by auto
next
  case (OpKeyPress ev)
  with assms(2) inv_handleKeyPress [OF assms(1), of ev s] show ?thesis by auto
next
  case (OpTextInput ev)
  with assms(2) inv_handleTextInput [OF assms(1), of ev nfc s] show ?thesis by auto
next
  case (OpFocusEvent ev)
  with inv_Focus [OF assms(1), of s] show ?thesis
    by (cases "Focus i s") (simp add: Input_handleFocus_def)
next
  case (OpBlurEvent ev)
  with inv_Blur [OF assms(1), of s] show ?thesis
    by (cases "Blur i s") (simp add: Input_handleBlur_def)
next
  case OpRenderCursor
  with inv_getCursorPixelPosition [OF assms(1)] show ?thesis by simp
qed (use assms(1) in \<open>simp_all add: Input_inv_def SetPlaceholder_def Input_SetFont_def
      SetTextColor_def SetBackgroundColor_def SetBorderColor_def SetValidator_def
      SetOnChange_def SetOnSubmit_def SetOnFocus_def SetOnBlur_def\<close>)

lemma handleClick_wrong_type:
  "Type ev \<noteq> EventTypeClick \<Longrightarrow> Input_handleClick ev i s = None"
  by (cases ev) (simp_all add: Input_handleClick_def)

lemma handleKeyPress_wrong_type:
  "Type ev \<noteq> EventTypeKeyPress \<Longrightarrow>
   Input_handleKeyPress ev i s = (if \<not> i_focused i then Some (False, i, s) else None)"
  by (cases ev) (simp_all add: Input_handleKeyPress_def)

lemma handleTextInput_wrong_type:
  "Type ev \<noteq> EventTypeTextInput \<Longrightarrow>
   Input_handleTextInput nfc ev i s = (if \<not> i_focused i then Some (False, i, s) else None)"
  by (cases ev) (simp_all add: Input_handleTextInput_def)

lemma inv_apply_Some:
  assumes "Input_inv i" and "Input_apply nfc op (i, s) = Some (i', s')"
  shows "Input_inv i'"
proof (cases "well_typed op")
  case True
  from inv_apply [OF assms(1) True, of nfc s] assms(2) show ?thesis by simp
next
  case False
  then consider (c1) ev where "op = OpClick ev" "Type ev \<noteq> EventTypeClick"
    | (c2) ev where "op = OpKeyPress ev" "Type ev \<noteq> EventTypeKeyPress"
    | (c3) ev where "op = OpTextInput ev" "Type ev \<noteq> EventTypeTextInput"
    | (c4) ev where "op = OpFocusEvent ev"
    | (c5) ev where "op = OpBlurEvent ev"
    by (cases op) simp_all
  then show ?thesis
  proof cases
    case c1
    with assms(2) show ?thesis by (simp add: handleClick_wrong_type)
  next
    case c2
    with assms show ?thesis by (auto simp: handleKeyPress_wrong_type split: if_splits)
  next
    case c3
    with assms show ?thesis by (auto simp: handleTextInput_wrong_type split: if_splits)
  next
    case c4
    with assms(2) inv_Focus [OF assms(1), of s] show ?thesis
      by (cases "Focus i s") (auto simp: Input_handleFocus_def)
  next
    case c5
    with assms(2) inv_Blur [OF assms(1), of s] show ?thesis
      by (cases "Blur i s") (auto simp: Input_handleBlur_def)
  qed
qed

lemma inv_run:
  "Input_inv i \<Longrightarrow> Input_run nfc ops (i, s) = Some (i', s') \<Longrightarrow> Input_inv i'"
proof (induction ops arbitrary: i s)
  case Nil
  then show ?case by simp
next
  case (Cons op ops)
  from Cons.prems(2) obtain i1 s1 where a: "Input_apply nfc op (i, s) = Some (i1, s1)"
    and r: "Input_run nfc ops (i1, s1) = Some (i', s')"
    by (auto split: option.splits)
  from inv_apply_Some [OF Cons.prems(1) a] have "Input_inv i1" .
  from Cons.IH [OF this r] show ?case .
qed

lemma run_total:
  "Input_inv i \<Longrightarrow> list_all well_typed ops \<Longrightarrow> \<exists>i' s'. Input_run nfc ops (i, s) = Some (i', s')"
proof (induction ops arbitrary: i s)
  case Nil
  then show ?case by simp
next
  case (Cons op ops)
  from Cons.prems have wt: "well_typed op" and rest: "list_all well_typed ops" by simp_all
  from inv_apply [OF Cons.prems(1) wt, of nfc s]
  obtain i1 s1 where a: "Input_apply nfc op (i, s) = Some (i1, s1)" and inv1: "Input_inv i1"
    by blast
  from Cons.IH [OF inv1 rest, of s1] a show ?case by simp
qed

section \<open>Input: reachable states\<close>

text \<open>The example session delivers well-typed events only, and runs to its end.\<close>

lemma session_typed: "list_all well_typed example_session"
  by (simp add: example_session_def)

lemma session_run:
  "map_option (\<lambda>(i, s). (i_text i, i_cursorPos i, i_selectionStart i, i_selectionEnd i, i_focused i, s))
     (Input_run (\<lambda>t. t) example_session (NewInput, []))
   = Some ([119, 111], 2, - 1, - 1, False,
           [[104, 233, 108, 108, 111], [104, 233, 108, 111], [104, 233, 108], [119, 111]])"
  by (simp add: example_session_def NewInput_def NewElement_def SetOnChange_def Input_handleClick_def
      ContainsPoint_def Focus_def Blur_def fire_def fire_text_def clearSelection_def
      Input_handleTextInput_def IsControl_def insertText_def hasSelection_def rejects_def
      Input_handleKeyPress_def KeyArrowLeft_def KeyBackspace_def KeyDelete_def KeyArrowRight_def
      KeyEnter_def SetMaxLength_def Input_SetText_def getCursorPixelPosition_def getCharWidth_def
      Face7x13_def Ceil_def half_def Let_def)

text \<open>
  C5. After every sequence of operations on a new input (the exported setters, among
  them \<open>SetText\<close> and \<open>SetMaxLength\<close>, \<open>Focus\<close> and \<open>Blur\<close>, the five registered
  handlers, the cursor clamp of \<open>Render\<close>, any change of the embedded element) the cursor
  is at least 0 and at most the code-point length of the text. As every prefix of a
  sequence is a sequence, this holds after each operation. A sequence that hands each
  handler events of the handler's kind runs to its end without a panic.
\<close>

theorem Input_cursor_in_text:
  "(Input_run nfc ops (NewInput, s) = Some (i, s') \<longrightarrow>
      0 \<le> i_cursorPos i \<and> i_cursorPos i \<le> int (length (i_text i)))
   \<and> (list_all well_typed ops \<longrightarrow> (\<exists>i s'. Input_run nfc ops (NewInput, s) = Some (i, s')))"
  using inv_run [OF inv_NewInput, of nfc ops s i s'] run_total [OF inv_NewInput, of ops nfc s]
  by (auto simp: Input_inv_def)

theorem Input_cursor_in_text_witness:
  "list_all well_typed example_session
   \<and> (\<exists>i s'. Input_run (\<lambda>t. t) example_session (NewInput, []) = Some (i, s')
         \<and> i_text i = [119, 111] \<and> i_cursorPos i = 2
         \<and> 0 \<le> i_cursorPos i \<and> i_cursorPos i \<le> int (length (i_text i)))"
proof -
  from Input_cursor_in_text [of "\<lambda>t. t" example_session "[]"] session_typed
  obtain i s' where r: "Input_run (\<lambda>t. t) example_session (NewInput, []) = Some (i, s')"
    by blast
  from Input_cursor_in_text [of "\<lambda>t. t" example_session "[]" i s'] r
  have b: "0 \<le> i_cursorPos i \<and> i_cursorPos i \<le> int (length (i_text i))" by blast
  from session_run r have v: "i_text i = [119, 111] \<and> i_cursorPos i = 2" by simp
  from session_typed r b v show ?thesis by blast
qed

text \<open>
  C10. After every sequence of operations on a new input both selection fields hold
  \<open>-1\<close>: \<open>hasSelection\<close> is false, and \<open>deleteSelection\<close>, which \<open>insertText\<close>, Backspace
  and Delete call only under \<open>hasSelection\<close>, would change nothing.
\<close>

theorem Input_never_has_selection:
  "Input_run nfc ops (NewInput, s) = Some (i, s') \<longrightarrow>
     i_selectionStart i = - 1 \<and> i_selectionEnd i = - 1 \<and> \<not> hasSelection i
     \<and> deleteSelection i = Some i"
  using inv_run [OF inv_NewInput, of nfc ops s i s']
  by (auto simp: Input_inv_def hasSelection_def deleteSelection_def)

theorem Input_never_has_selection_witness:
  "\<exists>i s'. Input_run (\<lambda>t. t) example_session (NewInput, []) = Some (i, s')
      \<and> i_selectionStart i = - 1 \<and> i_selectionEnd i = - 1 \<and> \<not> hasSelection i"
proof -
  from run_total [OF inv_NewInput session_typed, of "\<lambda>t. t" "[]"]
  obtain i s' where r: "Input_run (\<lambda>t. t) example_session (NewInput, []) = Some (i, s')"
    by blast
  from Input_never_has_selection [of "\<lambda>t. t" example_session "[]" i s'] r
  show ?thesis by blast
qed

section \<open>Input: validation in insertText\<close>

text \<open>
  C3 as it is worded fails at an input with a selection. The input holds \<open>12345\<close>, the
  cursor is 5, the selection is from 1 to 3 and the validator accepts digits only.
  Inserting \<open>x\<close> is rejected (the new text would be \<open>1x45\<close>), and the call returns with
  the text \<open>145\<close>, the cursor 1 and no selection: the selection was deleted before the
  validator was asked, and the deletion stays.
\<close>

theorem insertText_rejected_after_deleteSelection:
  "hasSelection example_selected
   \<and> rejects example_selected [49, 120, 52, 53]
   \<and> insertText (\<lambda>t. t) [120] example_selected [] =
       Some (example_selected\<lparr>i_text := [49, 52, 53], i_cursorPos := 1,
                               i_selectionStart := - 1, i_selectionEnd := - 1\<rparr>, [])
   \<and> i_text example_selected = [49, 50, 51, 52, 53] \<and> i_cursorPos example_selected = 5
   \<and> i_selectionStart example_selected = 1 \<and> i_selectionEnd example_selected = 3"
  by (simp add: example_selected_def SetValidator_def SetOnChange_def NewInput_def hasSelection_def
      rejects_def digits_only_def insertText_def deleteSelection_def clearSelection_def Let_def)

text \<open>
  C3, amended. Every state that a sequence of operations reaches from a new input has
  no selection and its cursor within the text. In every such state, for every inserted
  string: when no room remains under the length limit, or the validator rejects the new
  text, \<open>insertText\<close> returns with the input and the store as they were; otherwise the
  text is the new text, the cursor has advanced by exactly the number of code points
  inserted (the normalised string, cut to the room the length limit leaves) and
  \<open>onChange\<close> is invoked with the new text.
\<close>

theorem insertText_validation:
  "(Input_run nfc ops (NewInput, s0) = Some (i, s) \<longrightarrow>
      \<not> hasSelection i \<and> 0 \<le> i_cursorPos i \<and> i_cursorPos i \<le> int (length (i_text i)))
   \<and> (\<not> hasSelection i \<and> 0 \<le> i_cursorPos i \<and> i_cursorPos i \<le> int (length (i_text i)) \<longrightarrow>
       (let over = (i_maxLength i > 0 \<and> int (length (i_text i)) + int (length (nfc t)) > i_maxLength i);
            room = i_maxLength i - int (length (i_text i));
            inserted = (if over then take (nat room) (nfc t) else nfc t);
            newText = take (nat (i_cursorPos i)) (i_text i) @ inserted
                        @ drop (nat (i_cursorPos i)) (i_text i)
        in (over \<and> room \<le> 0 \<longrightarrow> insertText nfc t i s = Some (i, s))
         \<and> (\<not> (over \<and> room \<le> 0) \<and> rejects i newText \<longrightarrow> insertText nfc t i s = Some (i, s))
         \<and> (\<not> (over \<and> room \<le> 0) \<and> \<not> rejects i newText \<longrightarrow>
              insertText nfc t i s =
                Some (i\<lparr>i_text := newText, i_cursorPos := i_cursorPos i + int (length inserted)\<rparr>,
                      fire_text (i_onChange i) newText s))))"
proof -
  have reach: "\<not> hasSelection i \<and> 0 \<le> i_cursorPos i \<and> i_cursorPos i \<le> int (length (i_text i))"
    if "Input_run nfc ops (NewInput, s0) = Some (i, s)"
    using inv_run [OF inv_NewInput that] by (simp add: Input_inv_def hasSelection_def)
  have ins: "let over = (i_maxLength i > 0 \<and> int (length (i_text i)) + int (length (nfc t)) > i_maxLength i);
            room = i_maxLength i - int (length (i_text i));
            inserted = (if over then take (nat room) (nfc t) else nfc t);
            newText = take (nat (i_cursorPos i)) (i_text i) @ inserted
                        @ drop (nat (i_cursorPos i)) (i_text i)
        in (over \<and> room \<le> 0 \<longrightarrow> insertText nfc t i s = Some (i, s))
         \<and> (\<not> (over \<and> room \<le> 0) \<and> rejects i newText \<longrightarrow> insertText nfc t i s = Some (i, s))
         \<and> (\<not> (over \<and> room \<le> 0) \<and> \<not> rejects i newText \<longrightarrow>
              insertText nfc t i s =
                Some (i\<lparr>i_text := newText, i_cursorPos := i_cursorPos i + int (length inserted)\<rparr>,
                      fire_text (i_onChange i) newText s))"
    if "\<not> hasSelection i \<and> 0 \<le> i_cursorPos i \<and> i_cursorPos i \<le> int (length (i_text i))"
  proof -
    from that have ns: "\<not> hasSelection i" and lo: "0 \<le> i_cursorPos i"
      and hi: "i_cursorPos i \<le> int (length (i_text i))" by simp_all
    show ?thesis
      unfolding insertText_without_selection [OF ns lo hi, of nfc t s] Let_def by auto
  qed
  from reach ins show ?thesis by blast
qed

lemma example_digits_fields:
  "i_text example_digits = [49, 50]" "i_cursorPos example_digits = 2"
  "i_selectionStart example_digits = - 1" "i_selectionEnd example_digits = - 1"
  "i_maxLength example_digits = - 1" "i_validator example_digits = Some digits_only"
  "i_onChange example_digits = Some (\<lambda>t log. log @ [t])"
  by (simp_all add: example_digits_def Input_SetText_def SetValidator_def SetOnChange_def
      NewInput_def rejects_def digits_only_def clearSelection_def Let_def)

theorem insertText_validation_witness:
  "\<not> hasSelection example_digits
   \<and> rejects example_digits [49, 50, 120]
   \<and> insertText (\<lambda>t. t) [120] example_digits [] = Some (example_digits, [])
   \<and> \<not> rejects example_digits [49, 50, 55]
   \<and> insertText (\<lambda>t. t) [55] example_digits [] =
       Some (example_digits\<lparr>i_text := [49, 50, 55], i_cursorPos := 3\<rparr>, [[49, 50, 55]])"
proof -
  have pre: "\<not> hasSelection example_digits \<and> 0 \<le> i_cursorPos example_digits
             \<and> i_cursorPos example_digits \<le> int (length (i_text example_digits))"
    by (simp add: hasSelection_def example_digits_fields)
  have rej: "rejects example_digits [49, 50, 120]" and acc: "\<not> rejects example_digits [49, 50, 55]"
    by (simp_all add: rejects_def example_digits_fields digits_only_def)
  have a: "insertText (\<lambda>t. t) [120] example_digits [] = Some (example_digits, [])"
    using insertText_validation [of "\<lambda>t. t" "[]" "[]" example_digits "[]" "[120]"] pre rej
    by (simp add: Let_def example_digits_fields)
  have b: "insertText (\<lambda>t. t) [55] example_digits [] =
             Some (example_digits\<lparr>i_text := [49, 50, 55], i_cursorPos := 3\<rparr>, [[49, 50, 55]])"
    using insertText_validation [of "\<lambda>t. t" "[]" "[]" example_digits "[]" "[55]"] pre acc
    by (simp add: Let_def example_digits_fields fire_text_def)
  from pre rej acc a b show ?thesis by simp
qed

section \<open>Label: word wrap\<close>

subsection \<open>Words and lines\<close>






subsection \<open>The loop on lines and the loop on word lists agree\<close>








subsection \<open>Widths\<close>

















end
